theory Spec2Isabelle
  imports Complex_Main
begin

section \<open>Numbers\<close>

text \<open>
  The node computes with C++ \<open>float\<close> and \<open>double\<close>. Both are modelled by one type:
  a finite value is a real, and the three non-finite values of IEEE 754 are
  constructors of their own, because the code tests for them (\<open>depth == infinity\<close>,
  \<open>std::isfinite\<close>) and compares through them (every comparison with NaN is false).
  The arithmetic of \<open>double\<close> is taken as exact. The conversion of a \<open>double\<close> to
  \<open>float\<close> is \<open>to_float\<close> below: it rounds to the nearest single-precision value,
  ties to even, and gives an infinity beyond the range. The conversions of an \<open>int\<close>
  or a \<open>float\<close> to \<open>double\<close> are exact. The sign of zero is not modelled.
\<close>

datatype fl = Fin real | PInf | NInf | NaN

fun isfinite :: "fl \<Rightarrow> bool" where
  "isfinite (Fin r) = True"
| "isfinite PInf = False"
| "isfinite NInf = False"
| "isfinite NaN = False"

fun fl_neg :: "fl \<Rightarrow> fl" where
  "fl_neg (Fin r) = Fin (- r)"
| "fl_neg PInf = NInf"
| "fl_neg NInf = PInf"
| "fl_neg NaN = NaN"

fun fl_add :: "fl \<Rightarrow> fl \<Rightarrow> fl" where
  "fl_add (Fin a) (Fin b) = Fin (a + b)"
| "fl_add NaN y = NaN"
| "fl_add x NaN = NaN"
| "fl_add PInf NInf = NaN"
| "fl_add NInf PInf = NaN"
| "fl_add PInf y = PInf"
| "fl_add NInf y = NInf"
| "fl_add x PInf = PInf"
| "fl_add x NInf = NInf"

definition fl_sub :: "fl \<Rightarrow> fl \<Rightarrow> fl" where
  "fl_sub x y = fl_add x (fl_neg y)"

text \<open>The sign of a non-NaN value: \<open>1\<close>, \<open>0\<close> or \<open>-1\<close>.\<close>

fun fl_sign :: "fl \<Rightarrow> int" where
  "fl_sign (Fin r) = (if 0 < r then 1 else if r < 0 then - 1 else 0)"
| "fl_sign PInf = 1"
| "fl_sign NInf = - 1"
| "fl_sign NaN = 0"

definition inf_of_sign :: "int \<Rightarrow> fl" where
  "inf_of_sign s = (if 0 < s then PInf else if s < 0 then NInf else NaN)"

fun fl_mul :: "fl \<Rightarrow> fl \<Rightarrow> fl" where
  "fl_mul (Fin a) (Fin b) = Fin (a * b)"
| "fl_mul NaN y = NaN"
| "fl_mul x NaN = NaN"
| "fl_mul x y = inf_of_sign (fl_sign x * fl_sign y)"

text \<open>
  Division of a finite value by zero gives an infinity with the sign of the dividend
  (the zero is taken as positive), and \<open>0 / 0\<close> is NaN.
\<close>

fun fl_div :: "fl \<Rightarrow> fl \<Rightarrow> fl" where
  "fl_div (Fin a) (Fin b) = (if b = 0 then inf_of_sign (fl_sign (Fin a)) else Fin (a / b))"
| "fl_div NaN y = NaN"
| "fl_div x NaN = NaN"
| "fl_div (Fin a) y = Fin 0"
| "fl_div x (Fin b) = inf_of_sign (fl_sign x * (if b < 0 then - 1 else 1))"
| "fl_div x y = NaN"

fun fl_sqrt :: "fl \<Rightarrow> fl" where
  "fl_sqrt (Fin a) = (if a < 0 then NaN else Fin (sqrt a))"
| "fl_sqrt PInf = PInf"
| "fl_sqrt NInf = NaN"
| "fl_sqrt NaN = NaN"

text \<open>The comparisons \<open>==\<close>, \<open><\<close> and \<open>></\<close>: false as soon as one side is NaN.\<close>

fun fl_eq :: "fl \<Rightarrow> fl \<Rightarrow> bool" where
  "fl_eq (Fin a) (Fin b) = (a = b)"
| "fl_eq PInf PInf = True"
| "fl_eq NInf NInf = True"
| "fl_eq x y = False"

fun fl_less :: "fl \<Rightarrow> fl \<Rightarrow> bool" where
  "fl_less (Fin a) (Fin b) = (a < b)"
| "fl_less NaN y = False"
| "fl_less x NaN = False"
| "fl_less x NInf = False"
| "fl_less PInf y = False"
| "fl_less NInf y = True"
| "fl_less x PInf = True"

definition fl_greater :: "fl \<Rightarrow> fl \<Rightarrow> bool" where
  "fl_greater x y = fl_less y x"

definition fl_le :: "fl \<Rightarrow> fl \<Rightarrow> bool" where
  "fl_le x y = (fl_less x y \<or> fl_eq x y)"

text \<open>A value that is a real not below zero, or positive infinity.\<close>

fun fl_nonneg :: "fl \<Rightarrow> bool" where
  "fl_nonneg (Fin r) = (0 \<le> r)"
| "fl_nonneg PInf = True"
| "fl_nonneg NInf = False"
| "fl_nonneg NaN = False"

text \<open>\<open>std::numeric_limits<float>::max()\<close>, the largest finite \<open>float\<close>.\<close>

definition FLT_MAX :: real where
  "FLT_MAX = 2 ^ 128 - 2 ^ 104"

text \<open>
  The conversion of a \<open>double\<close> to \<open>float\<close> (IEEE 754 binary32, round to nearest, ties
  to even). \<open>pow2 e\<close> is the power of two with the integer exponent \<open>e\<close>; \<open>rne\<close> rounds
  a real to the nearest integer, a tie to the even one. A finite value other than
  zero with the binary exponent \<open>e\<close>, not below the least normal exponent -126, is
  rounded to a multiple of \<open>pow2 (e - 23)\<close>, the spacing of the 24-bit significands
  there (of the subnormal values, at the exponent -126); a result beyond \<open>FLT_MAX\<close>
  is the infinity of the value's sign.
\<close>

definition pow2 :: "int \<Rightarrow> real" where
  "pow2 e = (if 0 \<le> e then 2 ^ nat e else 1 / 2 ^ nat (- e))"

definition rne :: "real \<Rightarrow> int" where
  "rne q =
     (if q - of_int \<lfloor>q\<rfloor> < 1 / 2 then \<lfloor>q\<rfloor>
      else if 1 / 2 < q - of_int \<lfloor>q\<rfloor> then \<lfloor>q\<rfloor> + 1
      else if even \<lfloor>q\<rfloor> then \<lfloor>q\<rfloor> else \<lfloor>q\<rfloor> + 1)"

definition float_exponent :: "real \<Rightarrow> int" where
  "float_exponent r = max \<lfloor>log 2 \<bar>r\<bar>\<rfloor> (- 126)"

fun to_float :: "fl \<Rightarrow> fl" where
  "to_float (Fin r) =
     (if r = 0 then Fin 0
      else
        let ulp = pow2 (float_exponent r - 23);
            v = of_int (rne (r / ulp)) * ulp
        in if FLT_MAX < \<bar>v\<bar> then (if 0 < r then PInf else NInf) else Fin v)"
| "to_float PInf = PInf"
| "to_float NInf = NInf"
| "to_float NaN = NaN"

declare to_float.simps(1) [simp del]

text \<open>
  Conversion of a \<open>double\<close> to \<open>int\<close> truncates towards zero; it is undefined for a
  non-finite value and for one whose truncation does not fit 32 bits.
\<close>

definition trunc_int :: "real \<Rightarrow> int" where
  "trunc_int r = (if 0 \<le> r then \<lfloor>r\<rfloor> else \<lceil>r\<rceil>)"

fun to_int :: "fl \<Rightarrow> int option" where
  "to_int (Fin r) =
     (if - (2 ^ 31) \<le> trunc_int r \<and> trunc_int r < 2 ^ 31 then Some (trunc_int r) else None)"
| "to_int x = None"

section \<open>Vectors, matrices and images\<close>

text \<open>
  \<open>cv::Vec3f\<close>, \<open>tf2::Vector3\<close>, \<open>Eigen::Vector3d\<close>, \<open>pcl::PointXYZ\<close> and
  \<open>geometry_msgs::msg::Point\<close> are all triples of coordinates.
\<close>

datatype vec3 = Vec3 (vx: fl) (vy: fl) (vz: fl)

text \<open>
  The constructors of \<open>cv::Vec3f\<close> and of \<open>pcl::PointXYZ\<close> take three \<open>float\<close>s: called
  with \<open>double\<close>s, they store each coordinate converted to \<open>float\<close>.
\<close>

definition Vec3f :: "fl \<Rightarrow> fl \<Rightarrow> fl \<Rightarrow> vec3" where
  "Vec3f x y z = Vec3 (to_float x) (to_float y) (to_float z)"

definition PointXYZ :: "fl \<Rightarrow> fl \<Rightarrow> fl \<Rightarrow> vec3" where
  "PointXYZ x y z = Vec3 (to_float x) (to_float y) (to_float z)"

definition vec_sub :: "vec3 \<Rightarrow> vec3 \<Rightarrow> vec3" where
  "vec_sub a b = Vec3 (fl_sub (vx a) (vx b)) (fl_sub (vy a) (vy b)) (fl_sub (vz a) (vz b))"

text \<open>\<open>Eigen\<close>'s \<open>norm()\<close>: the square root of the sum of the squared coordinates.\<close>

definition norm3 :: "vec3 \<Rightarrow> fl" where
  "norm3 v = fl_sqrt (fl_add (fl_add (fl_mul (vx v) (vx v)) (fl_mul (vy v) (vy v)))
                             (fl_mul (vz v) (vz v)))"

definition finite3 :: "vec3 \<Rightarrow> bool" where
  "finite3 v = (isfinite (vx v) \<and> isfinite (vy v) \<and> isfinite (vz v))"

datatype cvPoint = Point (px: int) (py: int)

text \<open>
  A single-channel \<open>cv::Mat\<close>. \<open>mat_at\<close> is the element access \<open>m.at<T>(i, j)\<close>: OpenCV
  checks the indices in debug builds only, so an access outside the matrix (every
  access, when the matrix is empty) is undefined behaviour, here \<open>None\<close>.
\<close>

record Mat =
  rows :: nat
  cols :: nat
  elem :: "nat \<Rightarrow> nat \<Rightarrow> fl"

definition empty_Mat :: Mat where
  "empty_Mat = \<lparr>rows = 0, cols = 0, elem = (\<lambda>i j. Fin 0)\<rparr>"

definition is_empty :: "Mat \<Rightarrow> bool" where
  "is_empty m = (rows m * cols m = 0)"

definition mat_at :: "Mat \<Rightarrow> int \<Rightarrow> int \<Rightarrow> fl option" where
  "mat_at m i j =
     (if 0 \<le> i \<and> i < int (rows m) \<and> 0 \<le> j \<and> j < int (cols m)
      then Some (elem m (nat i) (nat j)) else None)"

section \<open>The depth projector\<close>

text \<open>
  \<open>get_point_from_depth\<close> (depthtection.cpp, lines 194 to 215). The depth sample is
  read first; a sample equal to zero or to positive infinity ends the function with
  the zero vector; otherwise the four intrinsics are read from \<open>K\<close> and the pinhole
  equations are evaluated in \<open>double\<close>; the result is a \<open>cv::Vec3f\<close>, so the three
  values are converted to \<open>float\<close>. The distortion coefficients \<open>D\<close> are a parameter
  that the body never reads. \<open>None\<close> is an access outside a matrix.
\<close>

definition get_point_from_depth :: "Mat \<Rightarrow> cvPoint \<Rightarrow> Mat \<Rightarrow> Mat \<Rightarrow> vec3 option" where
  "get_point_from_depth depth_img point K D =
     (case mat_at depth_img (py point) (px point) of
        None \<Rightarrow> None
      | Some depth \<Rightarrow>
          if fl_eq depth (Fin 0) \<or> fl_eq depth PInf then Some (Vec3f (Fin 0) (Fin 0) (Fin 0))
          else
            (case mat_at K 0 2 of None \<Rightarrow> None | Some cx \<Rightarrow>
             case mat_at K 1 2 of None \<Rightarrow> None | Some cy \<Rightarrow>
             case mat_at K 0 0 of None \<Rightarrow> None | Some fx \<Rightarrow>
             case mat_at K 1 1 of None \<Rightarrow> None | Some fy \<Rightarrow>
               let x = fl_div (fl_mul (fl_sub (Fin (of_int (px point))) cx) depth) fx;
                   y = fl_div (fl_mul (fl_sub (Fin (of_int (py point))) cy) depth) fy;
                   z = depth
               in Some (Vec3f x y z)))"

text \<open>
  The 3 by 3 intrinsic matrix with focal lengths \<open>fx\<close>, \<open>fy\<close> and principal point
  \<open>cx\<close>, \<open>cy\<close>, as \<open>cameraInfoCallback\<close> builds it from the calibration message.
\<close>

definition intrinsics :: "fl \<Rightarrow> fl \<Rightarrow> fl \<Rightarrow> fl \<Rightarrow> Mat" where
  "intrinsics fx fy cx cy =
     \<lparr>rows = 3, cols = 3,
      elem = (\<lambda>i j. if i = 0 \<and> j = 0 then fx else if i = 1 \<and> j = 1 then fy
                     else if i = 0 \<and> j = 2 then cx else if i = 1 \<and> j = 2 then cy
                     else if i = 2 \<and> j = 2 then Fin 1 else Fin 0)\<rparr>"


section \<open>Messages, candidates and the node's state\<close>

record Header =
  frame_id :: string
  stamp :: nat

record PointStamped =
  ps_header :: Header
  ps_point :: vec3

record ObjectHypothesis =
  class_id :: string
  score :: fl

text \<open>
  A \<open>vision_msgs::msg::Detection2D\<close>: the centre and size of the box, the detection's
  identifier and its hypotheses; \<open>Detection2DArray\<close> is a header and a list of them.
\<close>

record Detection2D =
  center_x :: fl
  center_y :: fl
  size_x :: fl
  size_y :: fl
  det_id :: string
  results :: "ObjectHypothesis list"

record Detection2DArray =
  det_header :: Header
  detections :: "Detection2D list"

text \<open>
  A point cloud message, with its points as \<open>pcl::fromROSMsg\<close> decodes them. In the code
  their coordinates are \<open>float\<close> values; the type admits any value, so that what is
  proved of every cloud holds of those.
\<close>

record PointCloud2 =
  pc_header :: Header
  pc_points :: "vec3 list"

record CameraInfo =
  info_k :: Mat
  info_d :: Mat
  info_width :: nat
  info_height :: nat

text \<open>
  Modelled from the spec: the class \<open>Candidate\<close> is declared in candidate.hpp, which is
  not among the sources. Its fields are the ones depthtection.cpp reads and writes
  (\<open>confidence\<close>, \<open>class_name\<close>, \<open>point\<close>) and the arguments of the constructor call
  \<open>Candidate(id, score, class_id, point)\<close>; the accessors \<open>x()\<close>, \<open>y()\<close>, \<open>z()\<close> and
  \<open>getEigen()\<close> are taken to refer to the coordinates of \<open>point\<close>, the candidate's
  position in the global frame.
\<close>

record Candidate =
  cand_id :: nat
  confidence :: fl
  class_name :: string
  point :: PointStamped

definition getEigen :: "Candidate \<Rightarrow> vec3" where
  "getEigen c = ps_point (point c)"

definition set_xyz :: "Candidate \<Rightarrow> vec3 \<Rightarrow> Candidate" where
  "set_xyz c v = c\<lparr>point := (point c)\<lparr>ps_point := Vec3 (vx v) (vy v) (vz v)\<rparr>\<rparr>"

text \<open>
  A \<open>tf2\<close> transform: its action on a vector and its origin. The frame-transform
  buffer is filled by a listener outside the handlers; a lookup either gives a
  transform or throws \<open>tf2::TransformException\<close> (\<open>None\<close>).
\<close>

record Transform =
  xform :: "vec3 \<Rightarrow> vec3"
  getOrigin :: vec3

datatype Phase =
  NO_DETECTION
| VISUAL_DETECTION_WITHOUT_DEPTH
| VISUAL_DETECTION_WITH_DEPTH
| ONLY_DEPTH_DETECTION
| TOO_NEAR_TO_DETECT

text \<open>
  What a handler lets the outside see: log lines (the format string and its string
  and number arguments), the overlay shown on screen, and the published cloud.
\<close>

datatype severity = Info | Warn | Error

datatype event =
  Log severity string "string list" "fl list"
| ShowImage string
| PublishCloud Header "vec3 list"

text \<open>
  How a handler can fail: by undefined behaviour (an access outside a matrix or a
  vector, a null pointer dereferenced, a conversion out of range), or by a transform
  exception that leaves the handler uncaught, which ends the process.
\<close>

datatype error = UndefinedBehaviour | UncaughtTransformException

text \<open>The colour image: its size and what the handler has drawn on it.\<close>

datatype overlay = Rectangle cvPoint cvPoint | Text string cvPoint

record RgbImage =
  rgb_rows :: nat
  rgb_cols :: nat
  drawn :: "overlay list"

definition rgb_empty :: "RgbImage \<Rightarrow> bool" where
  "rgb_empty m = (rgb_rows m * rgb_cols m = 0)"

text \<open>
  The members of the node that the handlers use, under their names in the class
  without the trailing underscore (\<open>Kmat\<close> and \<open>Dmat\<close> are \<open>K_\<close> and \<open>D_\<close>).
  Candidates are shared objects
  (\<open>std::shared_ptr<Candidate>\<close>): \<open>candidates\<close> holds their addresses,
  \<open>best_candidate\<close> is an address or null (\<open>None\<close>), and \<open>heap\<close> maps an address to
  the object stored there; \<open>next_addr\<close> is the address the next \<open>make_shared\<close> returns.
  \<open>error_once_logged\<close> is the static flag inside \<open>RCLCPP_ERROR_ONCE\<close>. The counter
  \<open>n_images_without_detection\<close> is a 32-bit \<open>int\<close>, here an integer that the code must
  not take beyond \<open>INT_MAX\<close>. \<open>target_detection\<close> is the
  class the detection handler compares with; depthtection.cpp uses it, the header
  at hand does not declare it.
\<close>

type_synonym addr = nat

record state =
  current_phase :: Phase
  Kmat :: Mat
  Dmat :: Mat
  imgSize :: "nat \<times> nat"
  haveCalibration :: bool
  base_frame :: string
  tfBuffer :: "string \<Rightarrow> string \<Rightarrow> Transform option"
  show_detection :: bool
  rgb_img :: RgbImage
  depth_img :: Mat
  candidates :: "addr list"
  best_candidate :: "addr option"
  n_images_without_detection :: int
  new_detection :: bool
  target_detection :: string
  heap :: "addr \<Rightarrow> Candidate option"
  next_addr :: addr
  error_once_logged :: bool

section \<open>Image and calibration handlers\<close>

definition rgbImageCallback :: "state \<Rightarrow> RgbImage \<Rightarrow> state" where
  "rgbImageCallback s img = s\<lparr>rgb_img := img\<rparr>"

definition depthImageCallback :: "state \<Rightarrow> Mat \<Rightarrow> state" where
  "depthImageCallback s img = s\<lparr>depth_img := img\<rparr>"

definition cameraInfoCallback :: "state \<Rightarrow> CameraInfo \<Rightarrow> state" where
  "cameraInfoCallback s msg =
     (if \<not> haveCalibration s
      then s\<lparr>Kmat := info_k msg, Dmat := info_d msg,
              imgSize := (info_width msg, info_height msg), haveCalibration := True\<rparr>
      else s)"

section \<open>The detection handler\<close>

text \<open>
  Lines 113 to 124: with \<open>show_detection\<close> set, the box and the detection's identifier
  are drawn on the colour image. The corners are \<open>cv::Point\<close>s, so each coordinate is
  converted to \<open>int\<close>.
\<close>

definition draw_detection :: "state \<Rightarrow> Detection2D \<Rightarrow> state option" where
  "draw_detection s detection =
     (if show_detection s then
        (case to_int (fl_sub (center_x detection) (fl_div (size_x detection) (Fin 2))) of
           None \<Rightarrow> None | Some x0 \<Rightarrow>
         case to_int (fl_sub (center_y detection) (fl_div (size_y detection) (Fin 2))) of
           None \<Rightarrow> None | Some y0 \<Rightarrow>
         case to_int (fl_add (center_x detection) (fl_div (size_x detection) (Fin 2))) of
           None \<Rightarrow> None | Some x1 \<Rightarrow>
         case to_int (fl_add (center_y detection) (fl_div (size_y detection) (Fin 2))) of
           None \<Rightarrow> None | Some y1 \<Rightarrow>
           Some (s\<lparr>rgb_img := (rgb_img s)\<lparr>drawn := drawn (rgb_img s) @
                   [Rectangle (Point x0 y0) (Point x1 y1),
                    Text (det_id detection) (Point x0 y0)]\<rparr>\<rparr>))
      else Some s)"

text \<open>
  \<open>extractEstimatedPoint\<close> (lines 171 to 182): the centre of the box, converted to
  an integer pixel, goes through the depth projector; the header of the result is
  left as constructed.
\<close>

definition extractEstimatedPoint :: "state \<Rightarrow> Mat \<Rightarrow> Detection2D \<Rightarrow> PointStamped option" where
  "extractEstimatedPoint s depth_image detection =
     (case to_int (center_x detection) of None \<Rightarrow> None | Some u \<Rightarrow>
      case to_int (center_y detection) of None \<Rightarrow> None | Some v \<Rightarrow>
      case get_point_from_depth depth_image (Point u v) (Kmat s) (Dmat s) of
        None \<Rightarrow> None
      | Some p \<Rightarrow> Some \<lparr>ps_header = \<lparr>frame_id = [], stamp = 0\<rparr>, ps_point = p\<rparr>)"

text \<open>
  Modelled from the spec: \<open>match_candidate\<close> is defined in candidate.hpp, which is not
  among the sources. The specification (4.3) has it scan the stored candidates and
  select the first one of the same class whose position is at a Euclidean distance
  below the threshold from the observed point; the result is that candidate, or null.
\<close>

fun match_candidate ::
  "(addr \<Rightarrow> Candidate option) \<Rightarrow> addr list \<Rightarrow> string \<Rightarrow> PointStamped \<Rightarrow> fl \<Rightarrow> addr option" where
  "match_candidate h [] cls p thr = None"
| "match_candidate h (a # as) cls p thr =
     (case h a of
        None \<Rightarrow> match_candidate h as cls p thr
      | Some c \<Rightarrow>
          if class_name c = cls \<and> fl_less (norm3 (vec_sub (getEigen c) (ps_point p))) thr
          then Some a
          else match_candidate h as cls p thr)"

text \<open>
  Lines 151 to 163: the observation either updates the candidate that
  \<open>match_candidate\<close> returns, or is stored as a new candidate at the end of
  \<open>candidates\<close>.
\<close>

definition match_or_create ::
  "state \<Rightarrow> ObjectHypothesis \<Rightarrow> PointStamped \<Rightarrow> Detection2D \<Rightarrow> error + state \<times> event list" where
  "match_or_create s hypothesis p detection =
     (case match_candidate (heap s) (candidates s) (class_id hypothesis) p (Fin 1) of
        None \<Rightarrow>
          Inr (s\<lparr>candidates := candidates s @ [next_addr s],
                 heap := (heap s)(next_addr s \<mapsto>
                   \<lparr>cand_id = length (candidates s) + 1, confidence = score hypothesis,
                    class_name = class_id hypothesis, point = p\<rparr>),
                 next_addr := next_addr s + 1\<rparr>,
               [Log Info ''New candidate %s'' [det_id detection] []])
      | Some a \<Rightarrow>
          (case heap s a of
             None \<Rightarrow> Inl UndefinedBehaviour
           | Some c \<Rightarrow>
               Inr (s\<lparr>heap := (heap s)(a \<mapsto>
                      c\<lparr>confidence := fl_div (fl_add (confidence c) (score hypothesis)) (Fin 2),
                        point := p\<rparr>)\<rparr>,
                    [Log Info ''Update candidate %s'' [det_id detection] [],
                     Log Info ''Candidate %s'' [class_name c] [],
                     Log Info ''Candidate point %f %f %f'' []
                       [vx (ps_point p), vy (ps_point p), vz (ps_point p)]])))"

text \<open>
  Lines 132 to 163, the work on one detection of the target class: projection, the
  transform to the frame \<open>earth\<close> inside its \<open>try\<close> block, matching. The Boolean of the
  result says whether the handler has returned (\<open>True\<close>) or goes on with the next
  detection.
\<close>

definition detection_body ::
  "state \<Rightarrow> Header \<Rightarrow> Detection2D \<Rightarrow> ObjectHypothesis \<Rightarrow> error + bool \<times> state \<times> event list" where
  "detection_body s hdr detection hypothesis =
     (case extractEstimatedPoint s (depth_img s) detection of
        None \<Rightarrow> Inl UndefinedBehaviour
      | Some p \<Rightarrow>
          (case tfBuffer s ''earth'' (frame_id hdr) of
             None \<Rightarrow>
               Inr (True, s, [Log Info ''Detection %s'' [det_id detection] [],
                              Log Warn ''TF exception: %s'' [] []])
           | Some transform \<Rightarrow>
               (case match_or_create s hypothesis
                       \<lparr>ps_header = \<lparr>frame_id = ''earth'', stamp = stamp hdr\<rparr>,
                        ps_point = xform transform (ps_point p)\<rparr> detection of
                  Inl e \<Rightarrow> Inl e
                | Inr (s', ev) \<Rightarrow>
                    Inr (False, s', Log Info ''Detection %s'' [det_id detection] [] # ev))))"

text \<open>
  One turn of the loop of lines 112 to 164: the overlay, the class test on the first
  hypothesis (\<open>results[0]\<close>), the test on the depth image and the calibration of
  line 128, then the body.
\<close>

definition detection_step ::
  "state \<Rightarrow> Header \<Rightarrow> Detection2D \<Rightarrow> error + bool \<times> state \<times> event list" where
  "detection_step s hdr detection =
     (case draw_detection s detection of
        None \<Rightarrow> Inl UndefinedBehaviour
      | Some s1 \<Rightarrow>
          (case results detection of
             [] \<Rightarrow> Inl UndefinedBehaviour
           | hypothesis # _ \<Rightarrow>
               if class_id hypothesis \<noteq> target_detection s1 then Inr (False, s1, [])
               else if \<not> is_empty (depth_img s1) \<or> \<not> haveCalibration s1
               then Inr (True, s1, [Log Warn ''No camera calibration available'' [] []])
               else detection_body s1 hdr detection hypothesis))"

fun detection_loop ::
  "state \<Rightarrow> Header \<Rightarrow> Detection2D list \<Rightarrow> error + bool \<times> state \<times> event list" where
  "detection_loop s hdr [] = Inr (False, s, [])"
| "detection_loop s hdr (d # ds) =
     (case detection_step s hdr d of
        Inl e \<Rightarrow> Inl e
      | Inr (returned, s1, ev1) \<Rightarrow>
          if returned then Inr (True, s1, ev1)
          else (case detection_loop s1 hdr ds of
                  Inl e \<Rightarrow> Inl e
                | Inr (returned2, s2, ev2) \<Rightarrow> Inr (returned2, s2, ev1 @ ev2)))"

text \<open>\<open>Depthtection::detectionCallback\<close> (lines 105 to 169).\<close>

definition detectionCallback :: "state \<Rightarrow> Detection2DArray \<Rightarrow> error + state \<times> event list" where
  "detectionCallback s msg =
     (if rgb_empty (rgb_img s) then Inr (s, [Log Warn ''No RGB image available'' [] []])
      else
        (case detection_loop s (det_header msg) (detections msg) of
           Inl e \<Rightarrow> Inl e
         | Inr (returned, s1, ev) \<Rightarrow>
             if \<not> returned \<and> show_detection s1 then Inr (s1, ev @ [ShowImage ''RGB Image''])
             else Inr (s1, ev)))"

section \<open>The point-cloud handler\<close>

text \<open>
  The loop of \<open>updateCandidateFromPointCloud\<close> (lines 229 to 236): \<open>i\<close> is the index
  of the point at the head of the list, \<open>max_z\<close> and \<open>max_idx\<close> are the loop's variables.
\<close>

fun max_z_loop :: "vec3 list \<Rightarrow> nat \<Rightarrow> fl \<Rightarrow> nat \<Rightarrow> nat" where
  "max_z_loop [] i max_z max_idx = max_idx"
| "max_z_loop (p # ps) i max_z max_idx =
     (if fl_greater (vz p) max_z then max_z_loop ps (i + 1) (vz p) i
      else max_z_loop ps (i + 1) max_z max_idx)"

text \<open>
  \<open>Depthtection::updateCandidateFromPointCloud\<close> (lines 217 to 242). The counter
  \<open>n_images_without_detection\<close> is a 32-bit \<open>int\<close>: incrementing it at \<open>INT_MAX\<close> is
  undefined. The candidate is a shared pointer; writing through a null pointer and
  reading \<open>points[max_idx]\<close> outside the vector are undefined. The coordinates read
  from the cloud are \<open>float\<close>s, and so are \<open>max_z\<close> and the values compared with it.
\<close>

definition updateCandidateFromPointCloud ::
  "state \<Rightarrow> addr option \<Rightarrow> vec3 list \<Rightarrow> error + state \<times> bool" where
  "updateCandidateFromPointCloud s candidate cloud =
     (let s1 = (if \<not> new_detection s
                then s\<lparr>n_images_without_detection := n_images_without_detection s + 1\<rparr>
                else s\<lparr>n_images_without_detection := 0\<rparr>);
          max_idx = max_z_loop cloud 0 (Fin (- FLT_MAX)) 0
      in if \<not> new_detection s \<and> n_images_without_detection s = 2 ^ 31 - 1
         then Inl UndefinedBehaviour
         else if length cloud \<le> max_idx then Inl UndefinedBehaviour
         else
           (case candidate of
              None \<Rightarrow> Inl UndefinedBehaviour
            | Some a \<Rightarrow>
                (case heap s1 a of
                   None \<Rightarrow> Inl UndefinedBehaviour
                 | Some c \<Rightarrow>
                     Inr (s1\<lparr>heap := (heap s1)(a \<mapsto> set_xyz c (cloud ! max_idx))\<rparr>, True))))"

text \<open>
  The loop of lines 271 to 291 over the points of the cloud. A point whose image in
  the frame \<open>earth\<close> has a non-finite coordinate is skipped before the best candidate
  is looked at; for any other point \<open>best_candidate->getEigen()\<close> is evaluated, which
  is undefined when the pointer is null. The point is skipped when its distance to
  the candidate is greater than 0.5; otherwise it is stored in the filtered cloud as
  a \<open>pcl::PointXYZ\<close>, its coordinates converted to \<open>float\<close>.
\<close>

fun filter_cloud :: "Candidate option \<Rightarrow> Transform \<Rightarrow> Transform \<Rightarrow> vec3 list \<Rightarrow> vec3 list option" where
  "filter_cloud best earthTf base_frame_Tf [] = Some []"
| "filter_cloud best earthTf base_frame_Tf (pointLidar # ps) =
     (let pointEarth = xform earthTf pointLidar;
          pointBase = xform base_frame_Tf pointLidar
      in if \<not> isfinite (vx pointEarth) \<or> \<not> isfinite (vy pointEarth) \<or> \<not> isfinite (vz pointEarth)
         then filter_cloud best earthTf base_frame_Tf ps
         else
           (case best of
              None \<Rightarrow> None
            | Some c \<Rightarrow>
                if fl_greater (norm3 (vec_sub pointEarth (getEigen c))) (Fin (1 / 2))
                then filter_cloud best earthTf base_frame_Tf ps
                else map_option
                       (\<lambda>rest. PointXYZ (vx pointEarth) (vy pointEarth) (vz pointEarth) # rest)
                       (filter_cloud best earthTf base_frame_Tf ps)))"

text \<open>The object a shared pointer refers to; null refers to none.\<close>

definition deref :: "state \<Rightarrow> addr option \<Rightarrow> Candidate option" where
  "deref s p = (case p of None \<Rightarrow> None | Some a \<Rightarrow> heap s a)"

text \<open>
  \<open>Depthtection::pointCloudCallback\<close> (lines 244 to 329). The two lookups of lines
  258 and 260 are inside the \<open>try\<close> block; the lookup of line 304 is outside it.
\<close>

definition pointCloudCallback :: "state \<Rightarrow> PointCloud2 \<Rightarrow> error + state \<times> event list" where
  "pointCloudCallback s msg =
     (if current_phase s = VISUAL_DETECTION_WITH_DEPTH \<or> current_phase s \<noteq> ONLY_DEPTH_DETECTION
      then Inr (s, [])
      else
        (case (case tfBuffer s ''earth'' (frame_id (pc_header msg)) of
                 None \<Rightarrow> None
               | Some earthTf \<Rightarrow>
                   (case tfBuffer s (base_frame s) (frame_id (pc_header msg)) of
                      None \<Rightarrow> None
                    | Some base_frame_Tf \<Rightarrow> Some (earthTf, base_frame_Tf))) of
           None \<Rightarrow>
             Inr (s\<lparr>error_once_logged := True\<rparr>,
                  if error_once_logged s then []
                  else [Log Error ''Could not transform %s to %s: %s''
                          [''earth'', frame_id (pc_header msg)] []])
         | Some (earthTf, base_frame_Tf) \<Rightarrow>
             (case filter_cloud (deref s (best_candidate s)) earthTf base_frame_Tf (pc_points msg) of
                None \<Rightarrow> Inl UndefinedBehaviour
              | Some cloud_filtered \<Rightarrow>
                  if length cloud_filtered < 20 then Inr (s, [])
                  else
                    (case updateCandidateFromPointCloud s (best_candidate s) cloud_filtered of
                       Inl e \<Rightarrow> Inl e
                     | Inr (s1, updated) \<Rightarrow>
                         if \<not> updated
                         then Inr (s1, [Log Info ''Could not update candidate from point cloud'' [] []])
                         else
                           (case tfBuffer s1 ''earth'' (base_frame s1) of
                              None \<Rightarrow> Inl UncaughtTransformException
                            | Some base_frame_respect_earth_tf \<Rightarrow>
                                (case deref s1 (best_candidate s1) of
                                   None \<Rightarrow> Inl UndefinedBehaviour
                                 | Some c \<Rightarrow>
                                     if fl_less (norm3 (vec_sub (getEigen c)
                                                   (getOrigin base_frame_respect_earth_tf)))
                                          (Fin (1 / 2))
                                     then Inr (s1\<lparr>current_phase := TOO_NEAR_TO_DETECT\<rparr>,
                                               [Log Warn ''PHASE: TOO_NEAR_TO_DETECT'' [] []])
                                     else Inr (s1, [PublishCloud
                                                      ((pc_header msg)\<lparr>frame_id := ''earth''\<rparr>)
                                                      cloud_filtered])))))))"

text \<open>A run of the point-cloud handler over a sequence of clouds, stopping at a failure.\<close>

fun pointCloud_run :: "state \<Rightarrow> PointCloud2 list \<Rightarrow> error + state \<times> event list" where
  "pointCloud_run s [] = Inr (s, [])"
| "pointCloud_run s (m # ms) =
     (case pointCloudCallback s m of
        Inl e \<Rightarrow> Inl e
      | Inr (s1, ev1) \<Rightarrow>
          (case pointCloud_run s1 ms of
             Inl e \<Rightarrow> Inl e
           | Inr (s2, ev2) \<Rightarrow> Inr (s2, ev1 @ ev2)))"

section \<open>Notions of the specification\<close>

text \<open>
  A surviving point, as the specification words it for the refiner: a point of the
  cloud whose image in the global frame has all coordinates finite and lies within
  Euclidean distance 0.5 of the best candidate's position.
\<close>

definition within_radius :: "vec3 \<Rightarrow> vec3 \<Rightarrow> bool" where
  "within_radius q c = fl_le (norm3 (vec_sub q c)) (Fin (1 / 2))"

definition surviving :: "Candidate \<Rightarrow> Transform \<Rightarrow> vec3 list \<Rightarrow> vec3 list" where
  "surviving c earthTf pts =
     filter (\<lambda>q. finite3 q \<and> within_radius q (getEigen c)) (map (xform earthTf) pts)"

text \<open>
  The copy of a point that the filtered cloud stores, with single-precision
  coordinates; and a position none of whose coordinates is NaN.
\<close>

definition narrowed :: "vec3 \<Rightarrow> vec3" where
  "narrowed q = PointXYZ (vx q) (vy q) (vz q)"

definition nan_free :: "vec3 \<Rightarrow> bool" where
  "nan_free v = (vx v \<noteq> NaN \<and> vy v \<noteq> NaN \<and> vz v \<noteq> NaN)"



section \<open>Concrete inputs\<close>

definition identity_tf :: Transform where
  "identity_tf = \<lparr>xform = (\<lambda>v. v), getOrigin = Vec3 (Fin 0) (Fin 0) (Fin 0)\<rparr>"

text \<open>
  A node that has received nothing yet: no images, no calibration, no candidates; every
  transform is available and is the identity; the target class is \<open>person\<close>;
  \<open>show_detection\<close> is set, so that the node subscribes to the colour image.
\<close>

definition boot_state :: state where
  "boot_state =
     \<lparr>current_phase = NO_DETECTION, Kmat = empty_Mat, Dmat = empty_Mat, imgSize = (0, 0),
      haveCalibration = False, base_frame = ''base_link'',
      tfBuffer = (\<lambda>target source. Some identity_tf), show_detection = True,
      rgb_img = \<lparr>rgb_rows = 0, rgb_cols = 0, drawn = []\<rparr>, depth_img = empty_Mat,
      candidates = [], best_candidate = None, n_images_without_detection = 0,
      new_detection = False, target_detection = ''person'', heap = (\<lambda>a. None),
      next_addr = 0, error_once_logged = False\<rparr>"

definition rgb_frame :: RgbImage where
  "rgb_frame = \<lparr>rgb_rows = 480, rgb_cols = 640, drawn = []\<rparr>"

text \<open>A 640 by 480 depth image with the same depth at every pixel.\<close>

definition depth_frame :: "fl \<Rightarrow> Mat" where
  "depth_frame d = \<lparr>rows = 480, cols = 640, elem = (\<lambda>i j. d)\<rparr>"

definition camera_info :: CameraInfo where
  "camera_info = \<lparr>info_k = intrinsics (Fin 500) (Fin 500) (Fin 320) (Fin 240),
                  info_d = empty_Mat, info_width = 640, info_height = 480\<rparr>"

definition person_hypothesis :: ObjectHypothesis where
  "person_hypothesis = \<lparr>class_id = ''person'', score = Fin (4 / 5)\<rparr>"

definition person_detection :: Detection2D where
  "person_detection =
     \<lparr>center_x = Fin 320, center_y = Fin 240, size_x = Fin 40, size_y = Fin 80,
      det_id = ''7'', results = [person_hypothesis]\<rparr>"

definition camera_header :: Header where
  "camera_header = \<lparr>frame_id = ''camera'', stamp = 1\<rparr>"

definition person_msg :: Detection2DArray where
  "person_msg = \<lparr>det_header = camera_header, detections = [person_detection]\<rparr>"

text \<open>
  The node after a colour image, a depth image of constant depth \<open>d\<close> and a calibration
  message have arrived; and the node after a colour image and a calibration message
  only.
\<close>

definition ready_state :: "fl \<Rightarrow> state" where
  "ready_state d =
     cameraInfoCallback
       (depthImageCallback (rgbImageCallback boot_state rgb_frame) (depth_frame d)) camera_info"

definition no_depth_state :: state where
  "no_depth_state = cameraInfoCallback (rgbImageCallback boot_state rgb_frame) camera_info"

text \<open>
  A node in the phase \<open>ONLY_DEPTH_DETECTION\<close> that tracks one candidate, stored at address 0
  and placed at the origin of the global frame; its transform buffer and its best
  candidate are parameters.
\<close>

definition origin_candidate :: Candidate where
  "origin_candidate =
     \<lparr>cand_id = 1, confidence = Fin (4 / 5), class_name = ''person'',
      point = \<lparr>ps_header = \<lparr>frame_id = ''earth'', stamp = 1\<rparr>,
               ps_point = Vec3 (Fin 0) (Fin 0) (Fin 0)\<rparr>\<rparr>"

definition tracking_state :: "(string \<Rightarrow> string \<Rightarrow> Transform option) \<Rightarrow> addr option \<Rightarrow> state" where
  "tracking_state tfb best =
     boot_state\<lparr>current_phase := ONLY_DEPTH_DETECTION, tfBuffer := tfb, candidates := [0],
                best_candidate := best, heap := (\<lambda>a. None)(0 \<mapsto> origin_candidate),
                next_addr := 1\<rparr>"

text \<open>
  Four transform buffers: every transform is the identity; no transform is available;
  every transform is the identity but the one from the base frame to \<open>earth\<close>, which is
  missing; the same with the vehicle placed 10 units from the origin.
\<close>

definition tf_all :: "string \<Rightarrow> string \<Rightarrow> Transform option" where
  "tf_all target source = Some identity_tf"

definition tf_none :: "string \<Rightarrow> string \<Rightarrow> Transform option" where
  "tf_none target source = None"

definition tf_without_base :: "string \<Rightarrow> string \<Rightarrow> Transform option" where
  "tf_without_base target source =
     (if target = ''earth'' \<and> source = ''base_link'' then None else Some identity_tf)"


definition cloud_msg :: "vec3 list \<Rightarrow> PointCloud2" where
  "cloud_msg pts = \<lparr>pc_header = \<lparr>frame_id = ''lidar'', stamp = 2\<rparr>, pc_points = pts\<rparr>"

text \<open>Nineteen points at the origin and one point 0.3 above it.\<close>

definition nineteen_and_one :: "vec3 list" where
  "nineteen_and_one =
     replicate 19 (Vec3 (Fin 0) (Fin 0) (Fin 0)) @ [Vec3 (Fin 0) (Fin 0) (Fin (3 / 10))]"










section \<open>Facts about the numbers\<close>




lemma fl_le_Fin [simp]: "fl_le (Fin a) (Fin b) \<longleftrightarrow> a \<le> b"
  by (auto simp: fl_le_def)

lemma fl_greater_Fin [simp]: "fl_greater (Fin a) (Fin b) \<longleftrightarrow> b < a"
  by (simp add: fl_greater_def)

lemma isfinite_iff: "isfinite x \<longleftrightarrow> (\<exists>r. x = Fin r)"
  by (cases x) auto

lemma norm3_finite:
  assumes "finite3 q" and "finite3 c"
  shows "\<exists>r. norm3 (vec_sub q c) = Fin r"
proof -
  obtain a b d where q: "q = Vec3 (Fin a) (Fin b) (Fin d)"
    using assms(1) by (cases q) (auto simp: finite3_def isfinite_iff)
  obtain e f g where c: "c = Vec3 (Fin e) (Fin f) (Fin g)"
    using assms(2) by (cases c) (auto simp: finite3_def isfinite_iff)
  have "\<not> (a - e) * (a - e) + (b - f) * (b - f) + (d - g) * (d - g) < 0"
    by (simp add: not_less add_nonneg_nonneg)
  then show ?thesis
    by (simp add: q c norm3_def vec_sub_def fl_sub_def)
qed








lemma sqrt_half: "sqrt (1 / 4) = 1 / 2"
  by (simp add: real_sqrt_divide)

lemma half_less_sqrt_iff: "1 < sqrt x * 2 \<longleftrightarrow> 1 / 4 < x"
  using real_sqrt_less_iff [of "1 / 4" x] by (simp add: sqrt_half)




lemma fl_le_refl: "x \<noteq> NaN \<Longrightarrow> fl_le x x"
  by (cases x) (auto simp: fl_le_def)

lemma fl_not_greater_iff: "x \<noteq> NaN \<Longrightarrow> y \<noteq> NaN \<Longrightarrow> \<not> fl_greater x y \<longleftrightarrow> fl_le x y"
  by (cases x; cases y) (auto simp: fl_le_def fl_greater_def)

lemma fl_less_imp_le: "fl_less x y \<Longrightarrow> fl_le x y"
  by (simp add: fl_le_def)

lemma fl_less_trans: "fl_less x y \<Longrightarrow> fl_less y z \<Longrightarrow> fl_less x z"
  by (cases x; cases y; cases z) auto

lemma fl_le_less_trans: "fl_le x y \<Longrightarrow> fl_less y z \<Longrightarrow> fl_less x z"
  by (cases x; cases y; cases z) (auto simp: fl_le_def)

lemma fl_le_trans: "fl_le x y \<Longrightarrow> fl_le y z \<Longrightarrow> fl_le x z"
  by (cases x; cases y; cases z) (auto simp: fl_le_def)

lemma fl_less_not_NaN: "fl_less x y \<Longrightarrow> x \<noteq> NaN \<and> y \<noteq> NaN"
  by (cases x; cases y) auto

lemma fl_nonneg_square: "isfinite x \<Longrightarrow> y \<noteq> NaN \<Longrightarrow> fl_nonneg (fl_mul (fl_sub x y) (fl_sub x y))"
  by (cases x; cases y) (auto simp: fl_sub_def inf_of_sign_def)

lemma fl_nonneg_add: "fl_nonneg x \<Longrightarrow> fl_nonneg y \<Longrightarrow> fl_nonneg (fl_add x y)"
  by (cases x; cases y) auto

lemma fl_nonneg_sqrt: "fl_nonneg x \<Longrightarrow> fl_sqrt x \<noteq> NaN"
  by (cases x) auto

section \<open>Facts about the conversion to float\<close>












lemma to_float_0 [simp]: "to_float (Fin 0) = Fin 0"
  by (simp add: to_float.simps(1))

lemma to_float_not_NaN: "x \<noteq> NaN \<Longrightarrow> to_float x \<noteq> NaN"
  by (cases x) (auto simp: to_float.simps(1) Let_def)

lemma to_float_finite_not_NaN: "isfinite x \<Longrightarrow> to_float x \<noteq> NaN"
  by (cases x) (auto simp: to_float.simps(1) Let_def)











section \<open>Facts about the filter and the search for the highest point\<close>



lemma norm3_not_NaN:
  assumes "finite3 q" and "nan_free c"
  shows "norm3 (vec_sub q c) \<noteq> NaN"
proof -
  have "fl_nonneg (fl_mul (fl_sub (vx q) (vx c)) (fl_sub (vx q) (vx c)))"
    and "fl_nonneg (fl_mul (fl_sub (vy q) (vy c)) (fl_sub (vy q) (vy c)))"
    and "fl_nonneg (fl_mul (fl_sub (vz q) (vz c)) (fl_sub (vz q) (vz c)))"
    using assms by (simp_all add: finite3_def nan_free_def fl_nonneg_square)
  then show ?thesis
    by (simp add: norm3_def vec_sub_def fl_nonneg_add fl_nonneg_sqrt)
qed

lemma filter_cloud_surviving:
  assumes "nan_free (getEigen c)"
  shows "filter_cloud (Some c) earthTf baseTf pts = Some (map narrowed (surviving c earthTf pts))"
proof (induction pts)
  case Nil
  show ?case by (simp add: surviving_def)
next
  case (Cons p ps)
  show ?case
  proof (cases "finite3 (xform earthTf p)")
    case False
    then show ?thesis using Cons by (auto simp: surviving_def finite3_def Let_def)
  next
    case True
    have "\<not> fl_greater (norm3 (vec_sub (xform earthTf p) (getEigen c))) (Fin (1 / 2))
            \<longleftrightarrow> within_radius (xform earthTf p) (getEigen c)"
      unfolding within_radius_def
      using norm3_not_NaN [OF True assms] by (intro fl_not_greater_iff) simp_all
    then show ?thesis using Cons True
      by (auto simp: surviving_def finite3_def narrowed_def Let_def)
  qed
qed

lemma filter_cloud_not_NaN:
  "filter_cloud best earthTf baseTf pts = Some cf \<Longrightarrow> \<forall>q\<in>set cf. vz q \<noteq> NaN"
proof (induction pts arbitrary: cf)
  case Nil
  then show ?case by simp
next
  case (Cons p ps)
  then show ?case
    by (auto simp: Let_def PointXYZ_def to_float_finite_not_NaN
             split: if_splits option.splits)
qed

lemma max_z_loop_spec:
  assumes "\<forall>q\<in>set ps. vz q \<noteq> NaN" and "mz \<noteq> NaN"
  shows "(max_z_loop ps i mz mi = mi \<and> (\<forall>q\<in>set ps. fl_le (vz q) mz))
       \<or> (i \<le> max_z_loop ps i mz mi \<and> max_z_loop ps i mz mi < i + length ps
          \<and> fl_less mz (vz (ps ! (max_z_loop ps i mz mi - i)))
          \<and> (\<forall>q\<in>set ps. fl_le (vz q) (vz (ps ! (max_z_loop ps i mz mi - i))))
          \<and> (\<forall>j<max_z_loop ps i mz mi - i.
                fl_less (vz (ps ! j)) (vz (ps ! (max_z_loop ps i mz mi - i)))))"
  using assms
proof (induction ps arbitrary: i mz mi)
  case Nil
  then show ?case by simp
next
  case (Cons p ps)
  have zp: "vz p \<noteq> NaN" and fin: "\<forall>q\<in>set ps. vz q \<noteq> NaN" using Cons.prems(1) by simp_all
  note mz = Cons.prems(2)
  show ?case
  proof (cases "fl_greater (vz p) mz")
    case True
    let ?r = "max_z_loop ps (i + 1) (vz p) i"
    have eq: "max_z_loop (p # ps) i mz mi = ?r" using True by simp
    have lt: "fl_less mz (vz p)" using True by (simp add: fl_greater_def)
    from Cons.IH [OF fin zp, of "i + 1" i]
    consider (a) "?r = i" "\<forall>q\<in>set ps. fl_le (vz q) (vz p)"
      | (b) "i + 1 \<le> ?r" "?r < i + 1 + length ps" "fl_less (vz p) (vz (ps ! (?r - (i + 1))))"
            "\<forall>q\<in>set ps. fl_le (vz q) (vz (ps ! (?r - (i + 1))))"
            "\<forall>j<?r - (i + 1). fl_less (vz (ps ! j)) (vz (ps ! (?r - (i + 1))))"
      by auto
    then show ?thesis
    proof cases
      case a
      then show ?thesis using lt zp eq by (auto simp: fl_le_refl)
    next
      case b
      have idx: "(p # ps) ! (?r - i) = ps ! (?r - (i + 1))" using b(1) by (simp add: nth_Cons')
      have first: "fl_less (vz ((p # ps) ! j)) (vz (ps ! (?r - (i + 1))))" if "j < ?r - i" for j
      proof (cases j)
        case 0
        then show ?thesis using b(3) by simp
      next
        case (Suc k)
        then have "k < ?r - (i + 1)" using that by simp
        then show ?thesis using b(5) Suc by simp
      qed
      have "fl_less mz (vz (ps ! (?r - (i + 1))))" using lt b(3) by (rule fl_less_trans)
      moreover have "fl_le (vz p) (vz (ps ! (?r - (i + 1))))" using b(3) by (rule fl_less_imp_le)
      ultimately show ?thesis using b(1,2,4) first idx unfolding eq by auto
    qed
  next
    case False
    let ?r = "max_z_loop ps (i + 1) mz mi"
    have eq: "max_z_loop (p # ps) i mz mi = ?r" using False by simp
    have le: "fl_le (vz p) mz" using False zp mz by (simp add: fl_not_greater_iff)
    from Cons.IH [OF fin mz, of "i + 1" mi]
    consider (a) "?r = mi" "\<forall>q\<in>set ps. fl_le (vz q) mz"
      | (b) "i + 1 \<le> ?r" "?r < i + 1 + length ps" "fl_less mz (vz (ps ! (?r - (i + 1))))"
            "\<forall>q\<in>set ps. fl_le (vz q) (vz (ps ! (?r - (i + 1))))"
            "\<forall>j<?r - (i + 1). fl_less (vz (ps ! j)) (vz (ps ! (?r - (i + 1))))"
      by auto
    then show ?thesis
    proof cases
      case a
      then show ?thesis using le eq by auto
    next
      case b
      have idx: "(p # ps) ! (?r - i) = ps ! (?r - (i + 1))" using b(1) by (simp add: nth_Cons')
      have plt: "fl_less (vz p) (vz (ps ! (?r - (i + 1))))" using le b(3) by (rule fl_le_less_trans)
      have first: "fl_less (vz ((p # ps) ! j)) (vz (ps ! (?r - (i + 1))))" if "j < ?r - i" for j
      proof (cases j)
        case 0
        then show ?thesis using plt by simp
      next
        case (Suc k)
        then have "k < ?r - (i + 1)" using that by simp
        then show ?thesis using b(5) Suc by simp
      qed
      have "fl_le (vz p) (vz (ps ! (?r - (i + 1))))" using plt by (rule fl_less_imp_le)
      then show ?thesis using b(1,2,3,4) first idx unfolding eq by auto
    qed
  qed
qed

text \<open>
  The search started as the code starts it, on a cloud that is not empty: the index
  found is that of the first point whose \<open>z\<close> is greatest, provided some \<open>z\<close> exceeds
  \<open>-FLT_MAX\<close>; otherwise it is 0.
\<close>

lemma max_z_loop_first:
  assumes ne: "ps \<noteq> []" and nn: "\<forall>q\<in>set ps. vz q \<noteq> NaN"
  shows "max_z_loop ps 0 (Fin (- FLT_MAX)) 0 < length ps
       \<and> (fl_less (Fin (- FLT_MAX)) (vz (ps ! max_z_loop ps 0 (Fin (- FLT_MAX)) 0))
            \<and> (\<forall>q\<in>set ps. fl_le (vz q) (vz (ps ! max_z_loop ps 0 (Fin (- FLT_MAX)) 0)))
            \<and> (\<forall>j<max_z_loop ps 0 (Fin (- FLT_MAX)) 0.
                  fl_less (vz (ps ! j)) (vz (ps ! max_z_loop ps 0 (Fin (- FLT_MAX)) 0)))
          \<or> max_z_loop ps 0 (Fin (- FLT_MAX)) 0 = 0
            \<and> (\<forall>q\<in>set ps. fl_le (vz q) (Fin (- FLT_MAX))))"
  using max_z_loop_spec [OF nn, of "Fin (- FLT_MAX)" 0 0] ne by auto

section \<open>The depth projector: the pinhole equations\<close>







section \<open>The detection handler: the test on the depth image\<close>

text \<open>
  Claim C1, evaluated on the code. With a colour image, a depth image and a
  calibration all received, a detection of the target class makes the handler draw
  the box, warn \<open>No camera calibration available\<close> and return: nothing is projected or
  matched, and no candidate exists afterwards. With the depth image missing and the
  calibration received, the handler does not return at line 128 but goes on to the
  projector, which reads a pixel of the empty depth image.
\<close>

theorem detectionCallback_depth_test_inverted:
  "\<not> rgb_empty (rgb_img (ready_state (Fin 2))) \<and> \<not> is_empty (depth_img (ready_state (Fin 2)))
   \<and> haveCalibration (ready_state (Fin 2))
   \<and> detectionCallback (ready_state (Fin 2)) person_msg
       = Inr ((ready_state (Fin 2))
                \<lparr>rgb_img := rgb_frame\<lparr>drawn := [Rectangle (Point 300 200) (Point 340 280),
                                                 Text ''7'' (Point 300 200)]\<rparr>\<rparr>,
              [Log Warn ''No camera calibration available'' [] []])
   \<and> candidates (ready_state (Fin 2)) = []
   \<and> \<not> rgb_empty (rgb_img no_depth_state) \<and> is_empty (depth_img no_depth_state)
   \<and> haveCalibration no_depth_state
   \<and> detectionCallback no_depth_state person_msg = Inl UndefinedBehaviour"
  by (simp add: ready_state_def no_depth_state_def cameraInfoCallback_def depthImageCallback_def
      rgbImageCallback_def boot_state_def rgb_frame_def depth_frame_def camera_info_def
      person_msg_def person_detection_def person_hypothesis_def camera_header_def
      detectionCallback_def detection_step_def draw_detection_def rgb_empty_def is_empty_def
      detection_body_def extractEstimatedPoint_def get_point_from_depth_def mat_at_def
      empty_Mat_def trunc_int_def fl_sub_def)

section \<open>The point-cloud handler: phase gate, support and refinement\<close>

lemma filter_cloud_None:
  "\<exists>p\<in>set pts. finite3 (xform earthTf p) \<Longrightarrow> filter_cloud None earthTf baseTf pts = None"
  by (induction pts) (auto simp: finite3_def Let_def)

lemma filter_cloud_Some: "\<exists>cf. filter_cloud (Some c) earthTf baseTf pts = Some cf"
  by (induction pts) (auto simp: Let_def)

lemma updateCandidateFromPointCloud_best_candidate:
  "updateCandidateFromPointCloud s p cloud = Inr (s1, ok) \<Longrightarrow>
     best_candidate s1 = best_candidate s \<and> base_frame s1 = base_frame s
     \<and> tfBuffer s1 = tfBuffer s \<and> current_phase s1 = current_phase s \<and> ok"
  by (auto simp: updateCandidateFromPointCloud_def Let_def split: option.splits if_splits)

lemma pointCloudCallback_best_candidate:
  assumes "pointCloudCallback s msg = Inr (s', ev)"
  shows "best_candidate s' = best_candidate s"
proof (cases "current_phase s = ONLY_DEPTH_DETECTION")
  case False
  then show ?thesis using assms by (simp add: pointCloudCallback_def)
next
  case phase: True
  show ?thesis
  proof (cases "tfBuffer s ''earth'' (frame_id (pc_header msg))")
    case None
    then show ?thesis using assms phase by (auto simp: pointCloudCallback_def)
  next
    case e: (Some earthTf)
    show ?thesis
    proof (cases "tfBuffer s (base_frame s) (frame_id (pc_header msg))")
      case None
      then show ?thesis using assms phase e by (auto simp: pointCloudCallback_def)
    next
      case b: (Some base_frame_Tf)
      show ?thesis
      proof (cases "filter_cloud (deref s (best_candidate s)) earthTf base_frame_Tf (pc_points msg)")
        case None
        then show ?thesis using assms phase e b by (simp add: pointCloudCallback_def)
      next
        case f: (Some cf)
        show ?thesis
        proof (cases "length cf < 20")
          case True
          then show ?thesis using assms phase e b f by (simp add: pointCloudCallback_def)
        next
          case n: False
          show ?thesis
          proof (cases "updateCandidateFromPointCloud s (best_candidate s) cf")
            case (Inl err)
            then show ?thesis using assms phase e b f n by (simp add: pointCloudCallback_def)
          next
            case (Inr r)
            obtain s1 ok where r: "r = (s1, ok)" by (cases r)
            note u = updateCandidateFromPointCloud_best_candidate [OF Inr [unfolded r]]
            have "pointCloudCallback s msg =
                    (case tfBuffer s1 ''earth'' (base_frame s1) of
                       None \<Rightarrow> Inl UncaughtTransformException
                     | Some t \<Rightarrow>
                         (case deref s1 (best_candidate s1) of
                            None \<Rightarrow> Inl UndefinedBehaviour
                          | Some c \<Rightarrow>
                              if fl_less (norm3 (vec_sub (getEigen c) (getOrigin t))) (Fin (1 / 2))
                              then Inr (s1\<lparr>current_phase := TOO_NEAR_TO_DETECT\<rparr>,
                                        [Log Warn ''PHASE: TOO_NEAR_TO_DETECT'' [] []])
                              else Inr (s1, [PublishCloud ((pc_header msg)\<lparr>frame_id := ''earth''\<rparr>) cf])))"
              using phase e b f n Inr r u by (simp add: pointCloudCallback_def)
            then show ?thesis using assms u
              by (auto split: option.splits if_splits)
          qed
        qed
      qed
    qed
  qed
qed

lemma pointCloudCallback_other_phase:
  "current_phase s \<noteq> ONLY_DEPTH_DETECTION \<Longrightarrow> pointCloudCallback s msg = Inr (s, [])"
  by (simp add: pointCloudCallback_def)

lemma pointCloud_run_other_phase:
  "current_phase s \<noteq> ONLY_DEPTH_DETECTION \<Longrightarrow> pointCloud_run s msgs = Inr (s, [])"
  by (induction msgs) (simp_all add: pointCloudCallback_other_phase)

text \<open>
  Claim C5. In every phase other than \<open>ONLY_DEPTH_DETECTION\<close>, \<open>TOO_NEAR_TO_DETECT\<close>
  among them, the point-cloud handler returns at once: whatever the cloud, the state
  is the one it was given and nothing is logged or published. So does any sequence
  of calls of the handler: once the phase is \<open>TOO_NEAR_TO_DETECT\<close>, the point-cloud path
  changes neither the phase nor the best candidate again.
\<close>

theorem pointCloudCallback_gated_by_phase:
  assumes "current_phase s \<noteq> ONLY_DEPTH_DETECTION"
  shows "pointCloudCallback s msg = Inr (s, []) \<and> pointCloud_run s msgs = Inr (s, [])"
  using assms by (simp add: pointCloudCallback_other_phase pointCloud_run_other_phase)

theorem pointCloudCallback_gated_by_phase_witness:
  "current_phase (boot_state\<lparr>current_phase := TOO_NEAR_TO_DETECT\<rparr>) \<noteq> ONLY_DEPTH_DETECTION
   \<and> pointCloudCallback (boot_state\<lparr>current_phase := TOO_NEAR_TO_DETECT\<rparr>)
        (cloud_msg nineteen_and_one)
       = Inr (boot_state\<lparr>current_phase := TOO_NEAR_TO_DETECT\<rparr>, [])
   \<and> pointCloud_run (boot_state\<lparr>current_phase := TOO_NEAR_TO_DETECT\<rparr>)
        [cloud_msg nineteen_and_one, cloud_msg [], cloud_msg nineteen_and_one]
       = Inr (boot_state\<lparr>current_phase := TOO_NEAR_TO_DETECT\<rparr>, [])"
proof -
  have h: "current_phase (boot_state\<lparr>current_phase := TOO_NEAR_TO_DETECT\<rparr>) \<noteq> ONLY_DEPTH_DETECTION"
    by simp
  show ?thesis using h pointCloudCallback_gated_by_phase [OF h] by blast
qed



text \<open>
  Claim C10. In the phase \<open>ONLY_DEPTH_DETECTION\<close>, with both transforms available and at
  least one point of the cloud whose image in the global frame is finite, the handler
  reads the best candidate's position unguarded: with a null best candidate the call
  is undefined behaviour, with a best candidate in place the loop completes; and the
  handler itself never assigns \<open>best_candidate\<close>, so it cannot establish the
  precondition it needs.
\<close>

theorem pointCloudCallback_needs_best_candidate:
  assumes "current_phase s = ONLY_DEPTH_DETECTION"
    and "tfBuffer s ''earth'' (frame_id (pc_header msg)) = Some earthTf"
    and "tfBuffer s (base_frame s) (frame_id (pc_header msg)) = Some base_frame_Tf"
    and "\<exists>p\<in>set (pc_points msg). finite3 (xform earthTf p)"
  shows "(best_candidate s = None \<longrightarrow> pointCloudCallback s msg = Inl UndefinedBehaviour)
       \<and> (\<forall>c. deref s (best_candidate s) = Some c \<longrightarrow>
            (\<exists>cf. filter_cloud (deref s (best_candidate s)) earthTf base_frame_Tf (pc_points msg)
                    = Some cf))
       \<and> (\<forall>s' ev. pointCloudCallback s msg = Inr (s', ev) \<longrightarrow>
            best_candidate s' = best_candidate s)"
proof (intro conjI allI impI)
  assume "best_candidate s = None"
  then show "pointCloudCallback s msg = Inl UndefinedBehaviour"
    using assms filter_cloud_None [of "pc_points msg" earthTf base_frame_Tf]
    by (simp add: pointCloudCallback_def deref_def)
next
  fix c assume "deref s (best_candidate s) = Some c"
  then show "\<exists>cf. filter_cloud (deref s (best_candidate s)) earthTf base_frame_Tf (pc_points msg)
                    = Some cf"
    using filter_cloud_Some by simp
next
  fix s' ev assume "pointCloudCallback s msg = Inr (s', ev)"
  then show "best_candidate s' = best_candidate s"
    by (rule pointCloudCallback_best_candidate)
qed

theorem pointCloudCallback_needs_best_candidate_witness:
  "current_phase (tracking_state tf_all None) = ONLY_DEPTH_DETECTION
   \<and> (\<exists>p\<in>set (pc_points (cloud_msg [Vec3 (Fin 1) (Fin 2) (Fin 3)])). finite3 (xform identity_tf p))
   \<and> best_candidate (tracking_state tf_all None) = None
   \<and> pointCloudCallback (tracking_state tf_all None) (cloud_msg [Vec3 (Fin 1) (Fin 2) (Fin 3)])
       = Inl UndefinedBehaviour"
proof -
  let ?s = "tracking_state tf_all None" and ?m = "cloud_msg [Vec3 (Fin 1) (Fin 2) (Fin 3)]"
  have phase: "current_phase ?s = ONLY_DEPTH_DETECTION"
    by (simp add: tracking_state_def)
  have e: "tfBuffer ?s ''earth'' (frame_id (pc_header ?m)) = Some identity_tf"
    by (simp add: tracking_state_def tf_all_def)
  have b: "tfBuffer ?s (base_frame ?s) (frame_id (pc_header ?m)) = Some identity_tf"
    by (simp add: tracking_state_def tf_all_def)
  have f: "\<exists>p\<in>set (pc_points ?m). finite3 (xform identity_tf p)"
    by (simp add: cloud_msg_def finite3_def identity_tf_def)
  have null: "best_candidate ?s = None" by (simp add: tracking_state_def)
  show ?thesis using phase f null pointCloudCallback_needs_best_candidate [OF phase e b f] by blast
qed


lemma getEigen_set_xyz: "getEigen (set_xyz c p) = p"
  by (cases p) (simp add: getEigen_def set_xyz_def)

text \<open>
  What the handler does once its loop has kept at least 20 points, with the counter
  below \<open>INT_MAX\<close>: the update writes the point that the search finds, and the result
  depends on the third lookup.
\<close>

lemma pointCloudCallback_after_update:
  assumes phase: "current_phase s = ONLY_DEPTH_DETECTION"
    and e: "tfBuffer s ''earth'' (frame_id (pc_header msg)) = Some earthTf"
    and b: "tfBuffer s (base_frame s) (frame_id (pc_header msg)) = Some base_frame_Tf"
    and best: "best_candidate s = Some a" "heap s a = Some c"
    and filt: "filter_cloud (Some c) earthTf base_frame_Tf (pc_points msg) = Some cf"
    and n: "20 \<le> length cf"
    and counter: "new_detection s \<or> n_images_without_detection s < 2 ^ 31 - 1"
  shows "\<exists>s1. updateCandidateFromPointCloud s (best_candidate s) cf = Inr (s1, True)
           \<and> best_candidate s1 = Some a
           \<and> heap s1 a = Some (set_xyz c (cf ! max_z_loop cf 0 (Fin (- FLT_MAX)) 0))
           \<and> pointCloudCallback s msg =
               (case tfBuffer s ''earth'' (base_frame s) of
                  None \<Rightarrow> Inl UncaughtTransformException
                | Some t \<Rightarrow>
                    if fl_less (norm3 (vec_sub (cf ! max_z_loop cf 0 (Fin (- FLT_MAX)) 0)
                                  (getOrigin t))) (Fin (1 / 2))
                    then Inr (s1\<lparr>current_phase := TOO_NEAR_TO_DETECT\<rparr>,
                              [Log Warn ''PHASE: TOO_NEAR_TO_DETECT'' [] []])
                    else Inr (s1, [PublishCloud ((pc_header msg)\<lparr>frame_id := ''earth''\<rparr>) cf]))"
proof -
  let ?idx = "max_z_loop cf 0 (Fin (- FLT_MAX)) 0"
  let ?s0 = "if \<not> new_detection s
             then s\<lparr>n_images_without_detection := n_images_without_detection s + 1\<rparr>
             else s\<lparr>n_images_without_detection := 0\<rparr>"
  have ne: "cf \<noteq> []" using n by auto
  have nn: "\<forall>q\<in>set cf. vz q \<noteq> NaN" using filt by (rule filter_cloud_not_NaN)
  have idx: "?idx < length cf" using max_z_loop_first [OF ne nn] by simp
  have filt': "filter_cloud (deref s (best_candidate s)) earthTf base_frame_Tf (pc_points msg)
                 = Some cf"
    using filt best by (simp add: deref_def)
  define s1 where "s1 = ?s0\<lparr>heap := (heap ?s0)(a \<mapsto> set_xyz c (cf ! ?idx))\<rparr>"
  have h0: "heap ?s0 a = Some c" using best by simp
  have cnt: "\<not> (\<not> new_detection s \<and> n_images_without_detection s = 2 ^ 31 - 1)"
    using counter by auto
  have upd: "updateCandidateFromPointCloud s (best_candidate s) cf = Inr (s1, True)"
    using idx best h0 cnt by (simp add: updateCandidateFromPointCloud_def Let_def s1_def)
  have b1: "best_candidate s1 = Some a" using best by (simp add: s1_def)
  have h1: "heap s1 a = Some (set_xyz c (cf ! ?idx))" by (simp add: s1_def)
  have t1: "tfBuffer s1 = tfBuffer s" "base_frame s1 = base_frame s" by (simp_all add: s1_def)
  have d1: "deref s1 (best_candidate s1) = Some (set_xyz c (cf ! ?idx))"
    using b1 h1 by (simp only: deref_def option.case)
  have "pointCloudCallback s msg =
               (case tfBuffer s ''earth'' (base_frame s) of
                  None \<Rightarrow> Inl UncaughtTransformException
                | Some t \<Rightarrow>
                    if fl_less (norm3 (vec_sub (cf ! ?idx) (getOrigin t))) (Fin (1 / 2))
                    then Inr (s1\<lparr>current_phase := TOO_NEAR_TO_DETECT\<rparr>,
                              [Log Warn ''PHASE: TOO_NEAR_TO_DETECT'' [] []])
                    else Inr (s1, [PublishCloud ((pc_header msg)\<lparr>frame_id := ''earth''\<rparr>) cf]))"
    unfolding pointCloudCallback_def
    using phase e b filt' n upd t1 d1
    by (simp add: getEigen_set_xyz split: option.splits)
  then show ?thesis using upd b1 h1 by blast
qed







section \<open>The point-cloud handler: the lookup outside the try block\<close>

text \<open>
  Claim C2, evaluated on the code. The node tracks a candidate at the origin in the phase
  \<open>ONLY_DEPTH_DETECTION\<close>; the transforms from the cloud's frame to \<open>earth\<close> and to the
  base frame are available, the transform from the base frame to \<open>earth\<close> is not. A
  cloud of 20 points at the candidate's position passes the filter and the update,
  and the lookup of line 304, which no \<open>try\<close> block encloses, throws: the exception
  leaves the handler. With no transform available at all, the first lookup throws
  inside the \<open>try\<close> block and the handler logs and returns.
\<close>

theorem pointCloudCallback_third_lookup_uncaught:
  "current_phase (tracking_state tf_without_base (Some 0)) = ONLY_DEPTH_DETECTION
   \<and> tf_without_base ''earth'' ''lidar'' = Some identity_tf
   \<and> tf_without_base ''base_link'' ''lidar'' = Some identity_tf
   \<and> tf_without_base ''earth'' ''base_link'' = None
   \<and> pointCloudCallback (tracking_state tf_without_base (Some 0))
        (cloud_msg (replicate 20 (Vec3 (Fin 0) (Fin 0) (Fin 0))))
       = Inl UncaughtTransformException
   \<and> pointCloudCallback (tracking_state tf_none (Some 0))
        (cloud_msg (replicate 20 (Vec3 (Fin 0) (Fin 0) (Fin 0))))
       = Inr ((tracking_state tf_none (Some 0))\<lparr>error_once_logged := True\<rparr>,
              [Log Error ''Could not transform %s to %s: %s'' [''earth'', ''lidar''] []])"
proof -
  let ?pts = "replicate 20 (Vec3 (Fin 0) (Fin 0) (Fin 0))"
  let ?s = "tracking_state tf_without_base (Some 0)" and ?m = "cloud_msg ?pts"
  have phase: "current_phase ?s = ONLY_DEPTH_DETECTION"
    by (simp add: tracking_state_def)
  have e: "tfBuffer ?s ''earth'' (frame_id (pc_header ?m)) = Some identity_tf"
    by (simp add: tracking_state_def cloud_msg_def tf_without_base_def)
  have b: "tfBuffer ?s (base_frame ?s) (frame_id (pc_header ?m)) = Some identity_tf"
    by (simp add: tracking_state_def cloud_msg_def tf_without_base_def boot_state_def)
  have best: "best_candidate ?s = Some 0" "heap ?s 0 = Some origin_candidate"
    by (simp_all add: tracking_state_def)
  have nf: "nan_free (getEigen origin_candidate)"
    by (simp add: nan_free_def getEigen_def origin_candidate_def)
  have surv: "surviving origin_candidate identity_tf (pc_points ?m) = ?pts"
    by (simp add: cloud_msg_def surviving_def within_radius_def norm3_def vec_sub_def
        fl_sub_def finite3_def getEigen_def origin_candidate_def identity_tf_def)
  have filt: "filter_cloud (Some origin_candidate) identity_tf identity_tf (pc_points ?m)
                = Some ?pts"
    unfolding filter_cloud_surviving [OF nf] surv
    by (simp add: narrowed_def PointXYZ_def)
  have n: "20 \<le> length ?pts" by simp
  have counter: "new_detection ?s \<or> n_images_without_detection ?s < 2 ^ 31 - 1"
    by (simp add: tracking_state_def boot_state_def)
  have t: "tfBuffer ?s ''earth'' (base_frame ?s) = None"
    by (simp add: tracking_state_def tf_without_base_def boot_state_def)
  from pointCloudCallback_after_update [OF phase e b best filt n counter]
  have "pointCloudCallback ?s ?m = Inl UncaughtTransformException"
    using t by auto
  moreover have "pointCloudCallback (tracking_state tf_none (Some 0)) ?m
       = Inr ((tracking_state tf_none (Some 0))\<lparr>error_once_logged := True\<rparr>,
              [Log Error ''Could not transform %s to %s: %s'' [''earth'', ''lidar''] []])"
    by (simp add: pointCloudCallback_def tracking_state_def tf_none_def cloud_msg_def
        boot_state_def)
  ultimately show ?thesis using phase by (simp add: tf_without_base_def)
qed

section \<open>The detection handler: matching and creating candidates\<close>











section \<open>The detection handler: the zero point of the projector\<close>

text \<open>
  For a depth of zero or positive infinity at the queried pixel the projector returns
  the zero point \<open>(0, 0, 0)\<close>; and the body of the handler's loop (lines 132 to 163)
  hands whatever the projector returns, the zero point included, to the transform
  and to the matcher.
\<close>

lemma detection_body_forwards_projector_result:
  assumes "mat_at img v u = Some d" and "d = Fin 0 \<or> d = PInf"
  shows "get_point_from_depth img (Point u v) K D = Some (Vec3 (Fin 0) (Fin 0) (Fin 0))
       \<and> (\<forall>s hdr det hyp t.
             depth_img s = img \<and> to_int (center_x det) = Some u \<and> to_int (center_y det) = Some v
             \<and> tfBuffer s ''earth'' (frame_id hdr) = Some t \<longrightarrow>
             detection_body s hdr det hyp =
               (case match_or_create s hyp
                       \<lparr>ps_header = \<lparr>frame_id = ''earth'', stamp = stamp hdr\<rparr>,
                        ps_point = xform t (Vec3 (Fin 0) (Fin 0) (Fin 0))\<rparr> det of
                  Inl e \<Rightarrow> Inl e
                | Inr (s', ev) \<Rightarrow>
                    Inr (False, s', Log Info ''Detection %s'' [det_id det] [] # ev)))"
proof -
  have g: "get_point_from_depth img (Point u v) K D = Some (Vec3 (Fin 0) (Fin 0) (Fin 0))" for K D
    using assms by (auto simp: get_point_from_depth_def Vec3f_def)
  show ?thesis
    using g by (auto simp: detection_body_def extractEstimatedPoint_def)
qed


end
